theory Spec2Isabelle
  imports Main "HOL-Library.Char_ord" "HOL-Library.List_Lexorder" "HOL-Library.AList"
begin

section \<open>The calibration-set builder \<^verbatim>\<open>02-make_calib_list.py\<close>\<close>

text \<open>
  The script collects image paths below a source directory, draws a seeded sample,
  decodes, resizes and re-encodes every sampled image into an output directory, and writes
  a list file. Everything it touches outside its own variables is made explicit here:
  the file system is a store from paths to entries, the module-level generator of
  \<^verbatim>\<open>random\<close> is a field of the world, and what the script asks of the file system or
  tells the logger is appended to a trace. The library routines it calls (the generator,
  the OpenCV codec and resampler) are parameters, collected in a record.
\<close>

subsection \<open>Paths\<close>

text \<open>
  A \<^verbatim>\<open>pathlib.Path\<close> is its tuple of parts; an absolute POSIX path has the part
  \<^verbatim>\<open>/\<close> first. \<^verbatim>\<open>Path.__lt__\<close> compares the tuples of parts, which is the
  lexicographic order on lists of strings, each string compared by code unit. That is
  the order \<open>HOL-Library.List_Lexorder\<close> puts on \<open>string list\<close>.
\<close>

type_synonym path = "string list"

definition is_absolute :: "path \<Rightarrow> bool" where
  "is_absolute p = (case p of [] \<Rightarrow> False | r # _ \<Rightarrow> r = ''/'')"

fun join_parts :: "string list \<Rightarrow> string" where
  "join_parts [] = []"
| "join_parts [n] = n"
| "join_parts (n # m # ns) = n @ ''/'' @ join_parts (m # ns)"

text \<open>\<^verbatim>\<open>str(p)\<close>: the parts joined by a slash, the root written once.\<close>

definition path_str :: "path \<Rightarrow> string" where
  "path_str p =
     (case p of
        [] \<Rightarrow> ''.''
      | r # ns \<Rightarrow> if r = ''/'' then ''/'' @ join_parts ns else join_parts (r # ns))"

text \<open>\<^verbatim>\<open>p.absolute()\<close>: the working directory is put in front of a relative path.\<close>

definition absolute :: "path \<Rightarrow> path \<Rightarrow> path" where
  "absolute cwd p = (if is_absolute p then p else cwd @ p)"

subsection \<open>Shell-style name matching\<close>

text \<open>
  \<^verbatim>\<open>fnmatch\<close> as \<^verbatim>\<open>Path.glob\<close> uses it on a POSIX system: case-sensitive, the
  star matches any run of characters (also the empty one and a leading dot), the
  question mark one character. Bracket expressions do not occur in the patterns of the
  script.
\<close>

fun fnmatch :: "string \<Rightarrow> string \<Rightarrow> bool" where
  "fnmatch [] [] = True"
| "fnmatch [] (c # s) = False"
| "fnmatch (p # ps) [] = (p = CHR ''*'' \<and> fnmatch ps [])"
| "fnmatch (p # ps) (c # s) =
     (if p = CHR ''*'' then fnmatch ps (c # s) \<or> fnmatch (p # ps) s
      else if p = CHR ''?'' then fnmatch ps s
      else p = c \<and> fnmatch ps s)"

text \<open>\<^verbatim>\<open>str.upper()\<close> on the ASCII letters.\<close>

definition char_upper :: "char \<Rightarrow> char" where
  "char_upper c =
     (if CHR ''a'' \<le> c \<and> c \<le> CHR ''z'' then char_of (of_char c - (32::nat)) else c)"

definition upper :: "string \<Rightarrow> string" where
  "upper s = map char_upper s"

subsection \<open>The file system\<close>

datatype entry = File string | Dir

text \<open>
  The store lists every entry under its path, in the order the operating system would
  enumerate it. The empty path is the working directory. A store the script can meet
  holds a path only together with its ancestor directories, and names every entry once,
  from the origin the script's own paths start at (symbolic links, \<^verbatim>\<open>..\<close> and
  permissions are left out).
\<close>

type_synonym fs = "(path \<times> entry) list"

definition stat :: "fs \<Rightarrow> path \<Rightarrow> entry option" where
  "stat fs p = (if p = [] then Some Dir else map_of fs p)"

definition path_exists :: "fs \<Rightarrow> path \<Rightarrow> bool" where
  "path_exists fs p = (stat fs p \<noteq> None)"

definition is_dir :: "fs \<Rightarrow> path \<Rightarrow> bool" where
  "is_dir fs p = (stat fs p = Some Dir)"

definition is_under :: "path \<Rightarrow> path \<Rightarrow> bool" where
  "is_under root p = (length root < length p \<and> take (length root) p = root)"

text \<open>\<^verbatim>\<open>root.rglob(pat)\<close>: every entry at any depth below the root whose name matches.\<close>

definition rglob :: "fs \<Rightarrow> path \<Rightarrow> string \<Rightarrow> path list" where
  "rglob fs root pat =
     filter (\<lambda>p. is_under root p \<and> fnmatch pat (last p)) (remdups (map fst fs))"

text \<open>\<^verbatim>\<open>d.glob(pat)\<close> for a pattern without a slash: the matching entries directly in d.\<close>

definition glob :: "fs \<Rightarrow> path \<Rightarrow> string \<Rightarrow> path list" where
  "glob fs d pat =
     filter (\<lambda>p. p \<noteq> [] \<and> butlast p = d \<and> fnmatch pat (last p)) (remdups (map fst fs))"

text \<open>\<^verbatim>\<open>p.unlink()\<close> removes a file and raises on a directory or a missing path.\<close>

definition unlink :: "fs \<Rightarrow> path \<Rightarrow> fs option" where
  "unlink fs p =
     (case stat fs p of Some (File b) \<Rightarrow> Some (AList.delete p fs) | _ \<Rightarrow> None)"

definition ancestors_and_self :: "path \<Rightarrow> path list" where
  "ancestors_and_self p = map (\<lambda>k. take k p) [1..<Suc (length p)]"

definition is_file :: "fs \<Rightarrow> path \<Rightarrow> bool" where
  "is_file fs p = (case stat fs p of Some (File b) \<Rightarrow> True | _ \<Rightarrow> False)"

text \<open>
  \<^verbatim>\<open>p.mkdir(parents=True, exist_ok=True)\<close>: raises when the path or one of its ancestors
  is a file, creates what is missing otherwise.
\<close>

definition mkdir_parents :: "fs \<Rightarrow> path \<Rightarrow> fs option" where
  "mkdir_parents fs p =
     (if list_ex (is_file fs) (ancestors_and_self p) then None
      else Some (fs @ map (\<lambda>q. (q, Dir))
                         (filter (\<lambda>q. \<not> path_exists fs q) (ancestors_and_self p))))"

text \<open>Creating or overwriting a file needs a parent directory and no directory in its place.\<close>

definition write_file :: "fs \<Rightarrow> path \<Rightarrow> string \<Rightarrow> fs option" where
  "write_file fs p b =
     (if p = [] \<or> \<not> is_dir fs (butlast p) \<or> is_dir fs p then None
      else Some (AList.update p (File b) fs))"

subsection \<open>Library routines, world, trace\<close>

text \<open>A decoded raster: \<^verbatim>\<open>image.shape[:2]\<close> is (rows, columns).\<close>

record image =
  shape_rows :: nat
  shape_cols :: nat
  pixels :: "nat list"

text \<open>
  The routines of \<^verbatim>\<open>random\<close> and \<^verbatim>\<open>cv2\<close> are taken as they come:
  \<open>random_seed\<close> builds the generator state from a seed, \<open>random_draw\<close> draws k
  elements of a population without replacement, \<open>imdecode\<close> decodes file contents
  (\<open>None\<close>: not an image), \<open>imencode_jpeg\<close> encodes at a quality (\<open>None\<close>: the encoder
  fails), \<open>cv_resize\<close> resamples (\<open>None\<close>: \<^verbatim>\<open>cv2.error\<close>).
\<close>

record 'g lib =
  random_seed :: "int \<Rightarrow> 'g"
  random_draw :: "'g \<Rightarrow> path list \<Rightarrow> nat \<Rightarrow> path list \<times> 'g"
  imdecode :: "string \<Rightarrow> image option"
  imencode_jpeg :: "int \<Rightarrow> image \<Rightarrow> string option"
  cv_resize :: "image \<Rightarrow> int \<Rightarrow> int \<Rightarrow> image option"

datatype error = ValueError string | CvError

datatype event =
    Traverse path string
  | Info_found nat path
  | Info_using_all int nat
  | Info_sampled nat nat
  | Warn_decode path
  | Err_mkdir path
  | Warn_unlink path
  | Err_imwrite path
  | Warn_save path
  | Info_processing nat
  | Info_processed nat nat
  | Err_no_calib
  | Info_list nat path
  | Err_list_write
  | Err_none_processed
  | Err_list_failed
  | Info_completed
  | Err_validation error
  | Err_unexpected error

record 'g world =
  files :: fs
  cwd :: path
  rng :: 'g
  trace :: "event list"

definition emit :: "event \<Rightarrow> 'g world \<Rightarrow> 'g world" where
  "emit e w = w\<lparr>trace := trace w @ [e]\<rparr>"

subsection \<open>sample_images\<close>

text \<open>
  \<^verbatim>\<open>random.sample(population, k)\<close> raises \<^verbatim>\<open>ValueError\<close> unless
  \<^verbatim>\<open>0 <= k <= len(population)\<close>.
\<close>

definition random_sample ::
  "'g lib \<Rightarrow> 'g \<Rightarrow> path list \<Rightarrow> int \<Rightarrow> error + (path list \<times> 'g)" where
  "random_sample L g population k =
     (if \<not> (0 \<le> k \<and> k \<le> int (length population))
      then Inl (ValueError ''Sample larger than population or is negative'')
      else Inr (random_draw L g population (nat k)))"

definition sample_images ::
  "'g lib \<Rightarrow> 'g world \<Rightarrow> path list \<Rightarrow> int \<Rightarrow> int \<Rightarrow> (error + path list) \<times> 'g world" where
  "sample_images L w image_paths num_samples seed =
     (let w1 = w\<lparr>rng := random_seed L seed\<rparr> in
      if int (length image_paths) \<le> num_samples
      then (Inr image_paths, emit (Info_using_all num_samples (length image_paths)) w1)
      else
        (case random_sample L (rng w1) image_paths num_samples of
           Inl e \<Rightarrow> (Inl e, w1)
         | Inr (sampled, g) \<Rightarrow>
             (Inr (sort sampled),
              emit (Info_sampled (length sampled) (length image_paths)) (w1\<lparr>rng := g\<rparr>))))"

subsection \<open>collect_image_paths\<close>

definition default_extensions :: "string list" where
  "default_extensions = [''.jpg'', ''.jpeg'', ''.png'']"

definition collect_image_paths ::
  "'g world \<Rightarrow> path \<Rightarrow> string list \<Rightarrow> (error + path list) \<times> 'g world" where
  "collect_image_paths w source_dir extensions =
     (if \<not> path_exists (files w) source_dir
      then (Inl (ValueError ''Source directory not found''), w)
      else if \<not> is_dir (files w) source_dir
      then (Inl (ValueError ''Source path is not a directory''), w)
      else
        let found = concat (map (\<lambda>ext. rglob (files w) source_dir (''*'' @ ext) @
                                       rglob (files w) source_dir (''*'' @ upper ext))
                                extensions);
            w1 = w\<lparr>trace := trace w @
                   concat (map (\<lambda>ext. [Traverse source_dir (''*'' @ ext),
                                       Traverse source_dir (''*'' @ upper ext)])
                               extensions)\<rparr>;
            image_paths = sort (remdups found)
        in if image_paths = [] then (Inl (ValueError ''No images found''), w1)
           else (Inr image_paths, emit (Info_found (length image_paths) source_dir) w1))"

subsection \<open>load_image, resize_if_needed, save_image\<close>

text \<open>\<^verbatim>\<open>cv2.imread\<close> gives \<^verbatim>\<open>None\<close> for a missing, unreadable or undecodable file.\<close>

definition imread :: "'g lib \<Rightarrow> fs \<Rightarrow> path \<Rightarrow> image option" where
  "imread L fs p = (case stat fs p of Some (File b) \<Rightarrow> imdecode L b | _ \<Rightarrow> None)"

definition load_image :: "'g lib \<Rightarrow> 'g world \<Rightarrow> path \<Rightarrow> image option \<times> 'g world" where
  "load_image L w image_path =
     (case imread L (files w) image_path of
        None \<Rightarrow> (None, emit (Warn_decode image_path) w)
      | Some img \<Rightarrow> (Some img, w))"

text \<open>\<open>None\<close> stands for the \<^verbatim>\<open>cv2.error\<close> that \<^verbatim>\<open>cv2.resize\<close> raises.\<close>

definition resize_if_needed :: "'g lib \<Rightarrow> image \<Rightarrow> int \<Rightarrow> int \<Rightarrow> image option" where
  "resize_if_needed L img target_width target_height =
     (if int (shape_cols img) = target_width \<and> int (shape_rows img) = target_height
      then Some img
      else cv_resize L img target_width target_height)"

text \<open>
  \<^verbatim>\<open>cv2.imwrite(path, image, [IMWRITE_JPEG_QUALITY, quality])\<close>: the raster is encoded
  and the result stored; \<open>None\<close> covers both a false return and an exception.
\<close>

definition imwrite :: "'g lib \<Rightarrow> fs \<Rightarrow> path \<Rightarrow> image \<Rightarrow> int \<Rightarrow> fs option" where
  "imwrite L fs p img quality =
     (case imencode_jpeg L quality img of
        None \<Rightarrow> None
      | Some b \<Rightarrow> write_file fs p b)"

definition save_image ::
  "'g lib \<Rightarrow> 'g world \<Rightarrow> image \<Rightarrow> path \<Rightarrow> int \<Rightarrow> bool \<times> 'g world" where
  "save_image L w img output_path quality =
     (case imwrite L (files w) output_path img quality of
        None \<Rightarrow> (False, emit (Err_imwrite output_path) w)
      | Some fs' \<Rightarrow> (True, w\<lparr>files := fs'\<rparr>))"

subsection \<open>process_images\<close>

text \<open>Decimal digits, and \<^verbatim>\<open>f"calib_{idx:06d}.jpg"\<close>: at least six digits, zero-padded.\<close>

definition digit :: "nat \<Rightarrow> char" where
  "digit d = char_of (48 + d)"

fun dec :: "nat \<Rightarrow> string" where
  "dec n = (if n < 10 then [digit n] else dec (n div 10) @ [digit (n mod 10)])"

declare dec.simps [simp del]

definition pad6 :: "string \<Rightarrow> string" where
  "pad6 s = replicate (6 - length s) (CHR ''0'') @ s"

definition calib_name :: "nat \<Rightarrow> string" where
  "calib_name idx = ''calib_'' @ pad6 (dec idx) @ ''.jpg''"

text \<open>The loop that removes the calibration images of an earlier run.\<close>

fun clear_existing :: "'g world \<Rightarrow> path list \<Rightarrow> 'g world" where
  "clear_existing w [] = w"
| "clear_existing w (old_file # rest) =
     (case unlink (files w) old_file of
        None \<Rightarrow> clear_existing (emit (Warn_unlink old_file) w) rest
      | Some fs' \<Rightarrow> clear_existing (w\<lparr>files := fs'\<rparr>) rest)"

text \<open>
  The loop over \<^verbatim>\<open>enumerate(image_paths)\<close>. An exception of the resampler is not
  caught in \<^verbatim>\<open>process_images\<close>: it ends the loop and reaches \<^verbatim>\<open>main\<close>.
\<close>

fun process_loop ::
  "'g lib \<Rightarrow> path \<Rightarrow> int \<Rightarrow> int \<Rightarrow> int \<Rightarrow> (nat \<times> path) list \<Rightarrow> nat \<Rightarrow> 'g world
   \<Rightarrow> (error + nat) \<times> 'g world" where
  "process_loop L output_dir tw th quality [] successful w = (Inr successful, w)"
| "process_loop L output_dir tw th quality ((idx, img_path) # rest) successful w =
     (case load_image L w img_path of
        (None, w1) \<Rightarrow> process_loop L output_dir tw th quality rest successful w1
      | (Some img, w1) \<Rightarrow>
          (case resize_if_needed L img tw th of
             None \<Rightarrow> (Inl CvError, w1)
           | Some img_resized \<Rightarrow>
               (case save_image L w1 img_resized (output_dir @ [calib_name idx]) quality of
                  (True, w2) \<Rightarrow>
                    process_loop L output_dir tw th quality rest (Suc successful) w2
                | (False, w2) \<Rightarrow>
                    process_loop L output_dir tw th quality rest successful
                      (emit (Warn_save (output_dir @ [calib_name idx])) w2))))"

definition process_images ::
  "'g lib \<Rightarrow> 'g world \<Rightarrow> path list \<Rightarrow> path \<Rightarrow> int \<Rightarrow> int \<Rightarrow> int
   \<Rightarrow> (error + nat) \<times> 'g world" where
  "process_images L w image_paths output_dir target_width target_height quality =
     (case mkdir_parents (files w) output_dir of
        None \<Rightarrow> (Inr 0, emit (Err_mkdir output_dir) w)
      | Some fs1 \<Rightarrow>
          let w1 = clear_existing (w\<lparr>files := fs1\<rparr>) (glob fs1 output_dir ''calib_*.jpg'');
              w2 = emit (Info_processing (length image_paths)) w1
          in (case process_loop L output_dir target_width target_height quality
                     (enumerate 0 image_paths) 0 w2 of
                (Inl e, w3) \<Rightarrow> (Inl e, w3)
              | (Inr successful, w3) \<Rightarrow>
                  (Inr successful,
                   emit (Info_processed successful (length image_paths)) w3)))"

subsection \<open>generate_image_list\<close>

definition newline :: string where
  "newline = [CHR 0x0A]"

definition list_lines :: "path \<Rightarrow> path list \<Rightarrow> string" where
  "list_lines d image_files = concat (map (\<lambda>img_file. path_str (absolute d img_file) @ newline) image_files)"

definition generate_image_list :: "'g world \<Rightarrow> path \<Rightarrow> bool \<times> 'g world" where
  "generate_image_list w output_dir =
     (let image_files = sort (glob (files w) output_dir ''calib_*.jpg'') in
      if image_files = [] then (False, emit Err_no_calib w)
      else
        let list_file = output_dir @ [''calibration_list.txt''] in
        (case write_file (files w) list_file (list_lines (cwd w) image_files) of
           None \<Rightarrow> (False, emit Err_list_write w)
         | Some fs' \<Rightarrow>
             (True, emit (Info_list (length image_files) list_file) (w\<lparr>files := fs'\<rparr>))))"

subsection \<open>main\<close>

record args =
  arg_source_dir :: path
  arg_output_dir :: path
  arg_num_images :: int
  arg_width :: int
  arg_height :: int
  arg_seed :: int
  arg_quality :: int

text \<open>The exit code and the world the run leaves behind.\<close>

definition main :: "'g lib \<Rightarrow> 'g world \<Rightarrow> args \<Rightarrow> int \<times> 'g world" where
  "main L w a =
     (case collect_image_paths w (arg_source_dir a) default_extensions of
        (Inl e, w1) \<Rightarrow> (1, emit (Err_validation e) w1)
      | (Inr all_images, w1) \<Rightarrow>
          (case sample_images L w1 all_images (arg_num_images a) (arg_seed a) of
             (Inl e, w2) \<Rightarrow> (1, emit (Err_validation e) w2)
           | (Inr selected_images, w2) \<Rightarrow>
               (case process_images L w2 selected_images (arg_output_dir a)
                       (arg_width a) (arg_height a) (arg_quality a) of
                  (Inl e, w3) \<Rightarrow> (1, emit (Err_unexpected e) w3)
                | (Inr num_processed, w3) \<Rightarrow>
                    if num_processed = 0 then (1, emit Err_none_processed w3)
                    else
                      (case generate_image_list w3 (arg_output_dir a) of
                         (False, w4) \<Rightarrow> (1, emit Err_list_failed w4)
                       | (True, w4) \<Rightarrow> (0, emit Info_completed w4)))))"

subsection \<open>A small library to run the script on\<close>

text \<open>
  Concrete stand-ins for the library routines, used only to evaluate the definitions at
  concrete inputs. The generator state is a counter and a draw takes the first k
  elements of the population rotated by it. A file decodes when it is \<^verbatim>\<open>P\<close>, a row
  count, a column count and that many pixel values; the encoder rounds every pixel down
  to a multiple of 101 minus the quality, as a lossy codec loses detail below its
  quantisation step; the resampler fills the target raster with the first pixel.
\<close>

definition toy_decode :: "string \<Rightarrow> image option" where
  "toy_decode s =
     (case s of
        t # r # c # px \<Rightarrow>
          if t = CHR ''P'' \<and> length px = of_char r * of_char c
          then Some \<lparr>shape_rows = of_char r, shape_cols = of_char c, pixels = map of_char px\<rparr>
          else None
      | _ \<Rightarrow> None)"

definition toy_encode :: "int \<Rightarrow> image \<Rightarrow> string option" where
  "toy_encode q img =
     (let step = nat (101 - q) in
      Some (CHR ''P'' # char_of (shape_rows img) # char_of (shape_cols img) #
            map (\<lambda>v. char_of (v - v mod step)) (pixels img)))"

definition toy_resize :: "image \<Rightarrow> int \<Rightarrow> int \<Rightarrow> image option" where
  "toy_resize img tw th =
     (if tw \<le> 0 \<or> th \<le> 0 then None
      else Some \<lparr>shape_rows = nat th, shape_cols = nat tw,
                 pixels = replicate (nat th * nat tw) (case pixels img of [] \<Rightarrow> 0 | v # _ \<Rightarrow> v)\<rparr>)"

definition toy_lib :: "nat lib" where
  "toy_lib =
     \<lparr>random_seed = (\<lambda>s. nat \<bar>s\<bar>),
      random_draw = (\<lambda>g population k. (take k (rotate g population), Suc g)),
      imdecode = toy_decode,
      imencode_jpeg = toy_encode,
      cv_resize = toy_resize\<rparr>"

subsection \<open>Reading a decimal numeral back\<close>


subsection \<open>The calibration entries of a directory\<close>

text \<open>
  What \<^verbatim>\<open>d.glob("calib_*.jpg")\<close> finds, as a set. The glob asks for a name, not
  for a kind of entry, so a directory of such a name is found like a file.
\<close>

definition present_calib :: "fs \<Rightarrow> path \<Rightarrow> path set" where
  "present_calib fs d =
     {p. p \<noteq> [] \<and> butlast p = d \<and> path_exists fs p \<and> fnmatch ''calib_*.jpg'' (last p)}"

text \<open>The same set with the kinds of entry spelled out.\<close>

definition calib_entries :: "fs \<Rightarrow> path \<Rightarrow> path set" where
  "calib_entries fs d =
     {p. p \<noteq> [] \<and> butlast p = d \<and> fnmatch ''calib_*.jpg'' (last p) \<and>
         (is_file fs p \<or> is_dir fs p)}"



subsection \<open>What one pass of the loop writes\<close>


subsection \<open>Concrete worlds\<close>

text \<open>Small file systems on which the definitions are evaluated. The image file is one
  pixel of value 200.\<close>

definition pixel_file :: string where
  "pixel_file = [CHR ''P'', CHR 0x01, CHR 0x01, CHR 0xC8]"

definition mixed_case_world :: "nat world" where
  "mixed_case_world =
     \<lparr>files = [([''src''], Dir),
               ([''src'', ''a.jpg''], File pixel_file),
               ([''src'', ''b.JPG''], File pixel_file),
               ([''src'', ''c.Jpg''], File pixel_file)],
      cwd = [''/'', ''work''], rng = 0, trace = []\<rparr>"

definition nested_world :: "nat world" where
  "nested_world =
     \<lparr>files = [([''/''], Dir),
               ([''/'', ''data''], Dir),
               ([''/'', ''data'', ''cat''], Dir),
               ([''/'', ''data'', ''cat'', ''1.jpg''], File pixel_file),
               ([''/'', ''data'', ''cat.jpg''], File pixel_file)],
      cwd = [''/'', ''work''], rng = 0, trace = []\<rparr>"

definition stale_world :: "nat world" where
  "stale_world =
     \<lparr>files = [([''src''], Dir),
               ([''src'', ''a.jpg''], File pixel_file),
               ([''src'', ''out''], Dir),
               ([''src'', ''out'', ''calib_000001.jpg''], File pixel_file),
               ([''src'', ''out'', ''calib_000000.jpg''], File pixel_file),
               ([''src'', ''out'', ''calib_notes.jpg''], File ''my notes''),
               ([''src'', ''out'', ''readme.txt''], File ''keep'')],
      cwd = [''/'', ''work''], rng = 0, trace = []\<rparr>"

definition dir_entry_world :: "nat world" where
  "dir_entry_world =
     \<lparr>files = [([''out''], Dir),
               ([''out'', ''calib_x.jpg''], Dir),
               ([''out'', ''calib_old.png''], File pixel_file)],
      cwd = [''/'', ''work''], rng = 0, trace = []\<rparr>"

definition listed_world :: "nat world" where
  "listed_world = snd (generate_image_list stale_world [''src'', ''out''])"

definition run_args :: args where
  "run_args =
     \<lparr>arg_source_dir = [''src''], arg_output_dir = [''out''], arg_num_images = 300,
      arg_width = 1, arg_height = 1, arg_seed = 42, arg_quality = 95\<rparr>"




definition made_dir_world :: "nat world" where
  "made_dir_world = mixed_case_world\<lparr>files := files mixed_case_world @ [([''out''], Dir)]\<rparr>"

section \<open>Facts about the file system and the names\<close>





lemma stat_write_file:
  "write_file fs p b = Some fs' \<Longrightarrow> stat fs' q = (if q = p then Some (File b) else stat fs q)"
  by (auto simp: write_file_def stat_def AList.update_conv' split: if_splits)





lemma path_exists_keys: "p \<noteq> [] \<Longrightarrow> path_exists fs p \<longleftrightarrow> p \<in> fst ` set fs"
  by (simp add: path_exists_def stat_def map_of_eq_None_iff)

lemma set_glob:
  "set (glob fs d pat) = {p. p \<noteq> [] \<and> path_exists fs p \<and> butlast p = d \<and> fnmatch pat (last p)}"
  by (force simp: glob_def path_exists_keys)

lemma is_under_nonempty: "is_under root p \<Longrightarrow> p \<noteq> []"
  by (auto simp: is_under_def)

lemma set_rglob:
  "set (rglob fs root pat) = {p. path_exists fs p \<and> is_under root p \<and> fnmatch pat (last p)}"
  by (force simp: rglob_def path_exists_keys is_under_nonempty)

lemma distinct_glob: "distinct (glob fs d pat)"
  by (simp add: glob_def)

subsection \<open>Patterns and file names\<close>

lemma fnmatch_literal:
  "p \<noteq> CHR ''*'' \<Longrightarrow> p \<noteq> CHR ''?'' \<Longrightarrow> fnmatch (p # ps) s \<longleftrightarrow> (\<exists>t. s = p # t \<and> fnmatch ps t)"
  by (cases s) auto

lemma fnmatch_star_skip: "fnmatch (CHR ''*'' # ps) s \<Longrightarrow> fnmatch (CHR ''*'' # ps) (t @ s)"
  by (induction t) auto


lemma fnmatch_calib_jpg: "fnmatch ''calib_*.jpg'' n \<Longrightarrow> fnmatch ''*.jpg'' n"
  using fnmatch_star_skip [of "''.jpg''" _ "''calib_''"]
  by (auto simp: fnmatch_literal)


lemma list_name_no_match: "\<not> fnmatch ''calib_*.jpg'' ''calibration_list.txt''"
  by simp







subsection \<open>The cleanup\<close>

lemma files_emit [simp]: "files (emit e w) = files w"
  by (simp add: emit_def)

lemma cwd_emit [simp]: "cwd (emit e w) = cwd w"
  by (simp add: emit_def)

lemma trace_emit [simp]: "trace (emit e w) = trace w @ [e]"
  by (simp add: emit_def)



lemma is_under_child: "is_under src out \<Longrightarrow> is_under src (out @ [n])"
  by (auto simp: is_under_def)


lemma snoc_le_cancel: "d @ [a] \<le> d @ [b] \<longleftrightarrow> a \<le> (b::'a::linorder)"
  by (induction d) auto

lemma sorted_map_last:
  "sorted ps \<Longrightarrow> \<forall>p\<in>set ps. p \<noteq> [] \<and> butlast p = d \<Longrightarrow> sorted (map last ps)"
proof (induction ps)
  case Nil
  show ?case by simp
next
  case (Cons p ps)
  have "last p \<le> last q" if "q \<in> set ps" for q
  proof -
    from Cons.prems that have "p \<le> q" by auto
    moreover from Cons.prems have "p = d @ [last p]"
      by (metis append_butlast_last_id list.set_intros(1))
    moreover from Cons.prems that have "q = d @ [last q]"
      by (metis append_butlast_last_id list.set_intros(2))
    ultimately have "d @ [last p] \<le> d @ [last q]" by simp
    then show ?thesis by (simp only: snoc_le_cancel)
  qed
  moreover from Cons have "sorted (map last ps)" by simp
  ultimately show ?case by simp
qed


subsection \<open>The loop over the sample\<close>



lemma save_image_ok:
  assumes "imencode_jpeg L q r = Some b" and "is_dir (files w) out"
    and "\<not> is_dir (files w) (out @ [n])"
  shows "\<exists>fs'. save_image L w r (out @ [n]) q = (True, w\<lparr>files := fs'\<rparr>) \<and>
           (\<forall>x. stat fs' x = (if x = out @ [n] then Some (File b) else stat (files w) x))"
proof -
  from assms have wr: "write_file (files w) (out @ [n]) b = Some (AList.update (out @ [n]) (File b) (files w))"
    by (simp add: write_file_def)
  then have "save_image L w r (out @ [n]) q = (True, w\<lparr>files := AList.update (out @ [n]) (File b) (files w)\<rparr>)"
    using assms(1) by (simp add: save_image_def imwrite_def)
  with stat_write_file [OF wr] show ?thesis by blast
qed


lemma process_loop_write:
  "imread L (files w) p = Some img \<Longrightarrow> resize_if_needed L img tw th = Some r \<Longrightarrow>
   save_image L w r (out @ [calib_name i]) q = (True, w2) \<Longrightarrow>
   process_loop L out tw th q ((i, p) # xs) s w = process_loop L out tw th q xs (Suc s) w2"
  by (simp add: load_image_def)


subsection \<open>process_images as a whole\<close>









subsection \<open>The stages of main\<close>




lemma present_calib_write_list:
  assumes "write_file fs (d @ [''calibration_list.txt'']) b = Some fs'"
  shows "present_calib fs' d = present_calib fs d"
proof -
  have nm: "q \<noteq> d @ [''calibration_list.txt'']" if "fnmatch ''calib_*.jpg'' (last q)" for q
    using that by auto
  have "path_exists fs' q = path_exists fs q" if "fnmatch ''calib_*.jpg'' (last q)" for q
    using nm [OF that] stat_write_file [OF assms, of q] by (simp add: path_exists_def)
  then show ?thesis by (auto simp: present_calib_def)
qed

lemma generate_image_list_ok:
  assumes "present_calib (files w) d \<noteq> {}" and "is_dir (files w) d"
    and "\<not> is_dir (files w) (d @ [''calibration_list.txt''])"
  shows "\<exists>w'. generate_image_list w d = (True, w') \<and>
           present_calib (files w') d = present_calib (files w) d \<and>
           set (trace w) \<subseteq> set (trace w')"
proof -
  have "set (glob (files w) d ''calib_*.jpg'') = present_calib (files w) d"
    by (auto simp: set_glob present_calib_def)
  with assms(1) have ne: "sort (glob (files w) d ''calib_*.jpg'') \<noteq> []"
    by (metis empty_set set_sort)
  define content where "content = list_lines (cwd w) (sort (glob (files w) d ''calib_*.jpg''))"
  from assms(2) assms(3) obtain fs' where
    wr: "write_file (files w) (d @ [''calibration_list.txt'']) content = Some fs'"
    by (simp add: write_file_def)
  from ne wr have "generate_image_list w d =
      (True, emit (Info_list (length (sort (glob (files w) d ''calib_*.jpg'')))
                     (d @ [''calibration_list.txt''])) (w\<lparr>files := fs'\<rparr>))"
    by (simp add: generate_image_list_def Let_def content_def)
  with present_calib_write_list [OF wr] show ?thesis by auto
qed






subsection \<open>Facts about the list file\<close>

lemma path_exists_kinds: "path_exists fs p \<longleftrightarrow> is_file fs p \<or> is_dir fs p"
proof (cases "stat fs p")
  case None
  then show ?thesis by (simp add: path_exists_def is_file_def is_dir_def)
next
  case (Some e)
  then show ?thesis by (cases e) (simp_all add: path_exists_def is_file_def is_dir_def)
qed

lemma calib_entries_present: "calib_entries fs d = present_calib fs d"
  by (auto simp: calib_entries_def present_calib_def path_exists_kinds)

lemma is_absolute_absolute: "is_absolute c \<Longrightarrow> is_absolute (absolute c p)"
  by (cases c) (auto simp: absolute_def is_absolute_def)

lemma list_file_content:
  assumes "generate_image_list w d = (True, w')"
  shows "stat (files w') (d @ [''calibration_list.txt'']) =
           Some (File (list_lines (cwd w) (sort (glob (files w) d ''calib_*.jpg'')))) \<and>
         present_calib (files w') d = present_calib (files w) d"
proof -
  from assms obtain fs' where
    wr: "write_file (files w) (d @ [''calibration_list.txt''])
           (list_lines (cwd w) (sort (glob (files w) d ''calib_*.jpg''))) = Some fs'"
    and w': "files w' = fs'"
    by (auto simp: generate_image_list_def Let_def split: if_splits option.splits)
  from stat_write_file [OF wr, of "d @ [''calibration_list.txt'']"] w'
       present_calib_write_list [OF wr]
  show ?thesis by simp
qed

section \<open>Sampling\<close>

text \<open>
  C1. Two runs of the sampling operation with the same corpus, sample count and seed
  return the same sample, whatever the worlds they start in: the generator state left
  by earlier draws, the files and the trace have no influence, because the operation
  reseeds the generator before it draws.
\<close>

theorem sample_images_deterministic:
  "fst (sample_images L w image_paths num_samples seed) =
   fst (sample_images L w' image_paths num_samples seed)"
  by (simp add: sample_images_def Let_def split: sum.splits prod.splits)

text \<open>
  C2. When the corpus has at most as many paths as requested, the sample is the corpus
  itself, in its order, for every seed.
\<close>

theorem sample_images_small_corpus:
  "int (length image_paths) \<le> num_samples \<Longrightarrow>
   fst (sample_images L w image_paths num_samples seed) = Inr image_paths"
  by (simp add: sample_images_def Let_def)

theorem sample_images_small_corpus_witness:
  "fst (sample_images toy_lib mixed_case_world [[''src'', ''a.jpg''], [''src'', ''b.JPG'']] 300 42) =
   Inr [[''src'', ''a.jpg''], [''src'', ''b.JPG'']]"
  using sample_images_small_corpus
    [of "[[''src'', ''a.jpg''], [''src'', ''b.JPG'']]" 300 toy_lib mixed_case_world 42]
  by simp

section \<open>Collecting paths\<close>

text \<open>
  C5, as the script has it. The corpus is sorted and free of duplicates in the order of
  \<^verbatim>\<open>Path\<close> objects, which compares the parts of two paths one by one, and every
  path in it is the source directory as it was given, followed by the parts below it.
\<close>

theorem collect_image_paths_sorted:
  assumes "fst (collect_image_paths w src exts) = Inr ps"
  shows "sorted ps \<and> distinct ps \<and> (\<forall>p\<in>set ps. is_under src p)"
proof -
  from assms have ps: "ps = sort (remdups (concat (map (\<lambda>ext. rglob (files w) src (''*'' @ ext) @
                                       rglob (files w) src (''*'' @ upper ext)) exts)))"
    by (auto simp: collect_image_paths_def Let_def split: if_splits)
  show ?thesis
    unfolding ps by (auto simp: set_rglob)
qed

theorem collect_image_paths_sorted_witness:
  "fst (collect_image_paths nested_world [''/'', ''data''] default_extensions) =
     Inr [[''/'', ''data'', ''cat'', ''1.jpg''], [''/'', ''data'', ''cat.jpg'']] \<and>
   sorted [[''/'', ''data'', ''cat'', ''1.jpg''], [''/'', ''data'', ''cat.jpg'']] \<and>
   distinct [[''/'', ''data'', ''cat'', ''1.jpg''], [''/'', ''data'', ''cat.jpg'']]"
proof -
  have h: "fst (collect_image_paths nested_world [''/'', ''data''] default_extensions) =
     Inr [[''/'', ''data'', ''cat'', ''1.jpg''], [''/'', ''data'', ''cat.jpg'']]"
    by code_simp
  from collect_image_paths_sorted [OF h] h show ?thesis by blast
qed

text \<open>
  As the specification has it, by the string of the absolute path, the corpus is not sorted: a
  directory \<^verbatim>\<open>cat\<close> next to a file \<^verbatim>\<open>cat.jpg\<close> puts \<^verbatim>\<open>/data/cat/1.jpg\<close> first,
  although the dot is below the slash.
\<close>

theorem corpus_not_sorted_by_path_string:
  "fst (collect_image_paths nested_world [''/'', ''data''] default_extensions) =
     Inr [[''/'', ''data'', ''cat'', ''1.jpg''], [''/'', ''data'', ''cat.jpg'']] \<and>
   map (\<lambda>p. path_str (absolute (cwd nested_world) p))
     [[''/'', ''data'', ''cat'', ''1.jpg''], [''/'', ''data'', ''cat.jpg'']] =
     [''/data/cat/1.jpg'', ''/data/cat.jpg''] \<and>
   \<not> sorted [''/data/cat/1.jpg'', ''/data/cat.jpg'']"
  by code_simp

text \<open>
  C4 at a concrete tree. The search looks for each extension as written and in upper
  case only, so of \<^verbatim>\<open>a.jpg\<close>, \<^verbatim>\<open>b.JPG\<close> and \<^verbatim>\<open>c.Jpg\<close> the last is not collected.
\<close>

theorem mixed_case_extension_missed:
  "fst (collect_image_paths mixed_case_world [''src''] default_extensions) =
   Inr [[''src'', ''a.jpg''], [''src'', ''b.JPG'']]"
  by code_simp

text \<open>
  C10. Nothing keeps the output directory out of the search: when it lies below the
  source directory, an entry in it that a previous run named \<^verbatim>\<open>calib_*.jpg\<close> is in
  the corpus, and it is in the sample whenever the corpus is no larger than the requested
  count.
\<close>

theorem collect_includes_output_dir:
  assumes "is_dir (files w) src" and "is_under src out"
    and "path_exists (files w) (out @ [n])" and "fnmatch ''calib_*.jpg'' n"
  shows "\<exists>c w1. collect_image_paths w src default_extensions = (Inr c, w1) \<and>
           out @ [n] \<in> set c \<and>
           (\<forall>N seed. int (length c) \<le> N \<longrightarrow> fst (sample_images L w1 c N seed) = Inr c)"
proof -
  define found where
    "found = concat (map (\<lambda>ext. rglob (files w) src (''*'' @ ext) @
                                rglob (files w) src (''*'' @ upper ext)) default_extensions)"
  from assms have "out @ [n] \<in> set (rglob (files w) src ''*.jpg'')"
    by (simp add: set_rglob is_under_child fnmatch_calib_jpg)
  then have "out @ [n] \<in> set found"
    by (simp add: found_def default_extensions_def)
  then have mem: "out @ [n] \<in> set (sort (remdups found))"
    by simp
  then have ne: "sort (remdups found) \<noteq> []"
    by (metis empty_iff empty_set)
  from assms(1) have "path_exists (files w) src"
    by (simp add: is_dir_def path_exists_def)
  with assms(1) ne have "fst (collect_image_paths w src default_extensions) = Inr (sort (remdups found))"
    unfolding found_def by (simp add: collect_image_paths_def Let_def)
  then obtain w1 where
    "collect_image_paths w src default_extensions = (Inr (sort (remdups found)), w1)"
    by (cases "collect_image_paths w src default_extensions") simp
  moreover have "\<forall>N seed. int (length (sort (remdups found))) \<le> N \<longrightarrow>
      fst (sample_images L w1 (sort (remdups found)) N seed) = Inr (sort (remdups found))"
    by (simp add: sample_images_def)
  ultimately show ?thesis
    using mem by blast
qed

theorem collect_includes_output_dir_witness:
  "\<exists>c w1. collect_image_paths stale_world [''src''] default_extensions = (Inr c, w1) \<and>
     [''src'', ''out'', ''calib_000000.jpg''] \<in> set c \<and>
     fst (sample_images toy_lib w1 c 300 42) = Inr c \<and> length c = 4"
proof -
  have a: "is_dir (files stale_world) [''src'']"
    and b: "is_under [''src''] [''src'', ''out'']"
    and c: "path_exists (files stale_world) ([''src'', ''out''] @ [''calib_000000.jpg''])"
    and d: "fnmatch ''calib_*.jpg'' ''calib_000000.jpg''"
    and e: "length (projr (fst (collect_image_paths stale_world [''src''] default_extensions))) = 4"
    by code_simp+
  from collect_includes_output_dir [OF a b c d, of toy_lib] e show ?thesis
    by fastforce
qed

section \<open>Writing the calibration images\<close>




text \<open>
  C6, as the script has it. An image whose decoded raster already has the target width
  and height is not resampled: \<^verbatim>\<open>resize_if_needed\<close> hands back the raster it was
  given. The raster is then encoded like every other one, and the file stored under the
  item's ordinal is what the JPEG encoder makes of it at the configured quality.
\<close>

theorem matching_image_is_reencoded:
  assumes "imread L (files w) p = Some img"
    and "int (shape_cols img) = tw" and "int (shape_rows img) = th"
    and "imencode_jpeg L q img = Some b"
    and "is_dir (files w) out" and "\<not> is_dir (files w) (out @ [calib_name idx])"
  shows "resize_if_needed L img tw th = Some img \<and>
         (\<exists>w'. process_loop L out tw th q [(idx, p)] s w = (Inr (Suc s), w') \<and>
                stat (files w') (out @ [calib_name idx]) = Some (File b))"
proof -
  from assms(2) assms(3) have rs: "resize_if_needed L img tw th = Some img"
    by (simp add: resize_if_needed_def)
  from save_image_ok [OF assms(4) assms(5) assms(6)] obtain fs' where
    sv: "save_image L w img (out @ [calib_name idx]) q = (True, w\<lparr>files := fs'\<rparr>)"
    and st: "stat fs' (out @ [calib_name idx]) = Some (File b)"
    by auto
  have "process_loop L out tw th q [(idx, p)] s w =
        process_loop L out tw th q [] (Suc s) (w\<lparr>files := fs'\<rparr>)"
    by (rule process_loop_write [OF assms(1) rs sv])
  with rs st show ?thesis by simp
qed

theorem matching_image_is_reencoded_witness:
  "resize_if_needed toy_lib \<lparr>shape_rows = 1, shape_cols = 1, pixels = [200]\<rparr> 1 1 =
     Some \<lparr>shape_rows = 1, shape_cols = 1, pixels = [200]\<rparr> \<and>
   (\<exists>w'. process_loop toy_lib [''out''] 1 1 95 [(0, [''src'', ''a.jpg''])] 0 made_dir_world = (Inr (Suc 0), w') \<and>
          stat (files w') [''out'', ''calib_000000.jpg''] =
            Some (File [CHR ''P'', CHR 0x01, CHR 0x01, CHR 0xC6]))"
proof -
  have a: "imread toy_lib (files made_dir_world) [''src'', ''a.jpg''] =
             Some \<lparr>shape_rows = 1, shape_cols = 1, pixels = [200]\<rparr>"
    and b: "int (shape_cols \<lparr>shape_rows = 1, shape_cols = 1, pixels = [200]\<rparr>) = 1"
    and c: "int (shape_rows \<lparr>shape_rows = 1, shape_cols = 1, pixels = [200]\<rparr>) = 1"
    and d: "imencode_jpeg toy_lib 95 \<lparr>shape_rows = 1, shape_cols = 1, pixels = [200]\<rparr> =
             Some [CHR ''P'', CHR 0x01, CHR 0x01, CHR 0xC6]"
    and e: "is_dir (files made_dir_world) [''out'']"
    and f: "\<not> is_dir (files made_dir_world) ([''out''] @ [calib_name 0])"
    and g: "calib_name 0 = ''calib_000000.jpg''"
    by code_simp+
  from matching_image_is_reencoded [OF a b c d e f, of 0] g show ?thesis by simp
qed

text \<open>
  As the specification has it, the output would lose nothing against the source file. With an
  encoder that quantises, as JPEG does, a source pixel of 200 in an image of the target
  size comes back as 198 from the file the run wrote.
\<close>

theorem reencoding_changes_pixels:
  "imread toy_lib (files mixed_case_world) [''src'', ''a.jpg''] =
     Some \<lparr>shape_rows = 1, shape_cols = 1, pixels = [200]\<rparr> \<and>
   arg_width run_args = 1 \<and> arg_height run_args = 1 \<and>
   fst (main toy_lib mixed_case_world run_args) = 0 \<and>
   imread toy_lib (files (snd (main toy_lib mixed_case_world run_args))) [''out'', ''calib_000000.jpg''] =
     Some \<lparr>shape_rows = 1, shape_cols = 1, pixels = [198]\<rparr>"
  by code_simp

section \<open>The list file\<close>

text \<open>
  C9, as the script has it. A successful \<^verbatim>\<open>generate_image_list\<close> leaves a list file
  with one line for every entry directly in the output directory whose name matches
  \<^verbatim>\<open>calib_*.jpg\<close>, be it a regular file or a directory, and for nothing else: no
  entry twice, the entries in ascending order of their names, each line the entry's path
  with the working directory in front of a relative one, followed by a newline. With the
  working directory absolute, as the operating system reports it, every listed path is
  absolute. The requested count and the counter of \<^verbatim>\<open>process_images\<close> are not among
  the inputs. When no entry matches, the function fails and writes nothing; when one
  does and the list file can be written, it succeeds.
\<close>

theorem generate_image_list_lists_entries:
  "(generate_image_list w d = (True, w') \<longrightarrow>
      (\<exists>fl. stat (files w') (d @ [''calibration_list.txt'']) =
               Some (File (concat (map (\<lambda>p. path_str (absolute (cwd w) p) @ [CHR 0x0A]) fl))) \<and>
            set fl = calib_entries (files w') d \<and> distinct fl \<and>
            sorted (map last fl) \<and> length fl = card (calib_entries (files w') d) \<and>
            (is_absolute (cwd w) \<longrightarrow> (\<forall>p\<in>set fl. is_absolute (absolute (cwd w) p))))) \<and>
   (calib_entries (files w) d = {} \<longrightarrow>
      generate_image_list w d = (False, emit Err_no_calib w)) \<and>
   (calib_entries (files w) d \<noteq> {} \<and> is_dir (files w) d \<and>
    \<not> is_dir (files w) (d @ [''calibration_list.txt'']) \<longrightarrow>
      fst (generate_image_list w d))"
proof (intro conjI impI)
  assume empty: "calib_entries (files w) d = {}"
  have "set (glob (files w) d ''calib_*.jpg'') = present_calib (files w) d"
    by (auto simp: set_glob present_calib_def)
  with empty have "glob (files w) d ''calib_*.jpg'' = []"
    by (simp add: calib_entries_present)
  then show "generate_image_list w d = (False, emit Err_no_calib w)"
    by (simp add: generate_image_list_def)
next
  assume "calib_entries (files w) d \<noteq> {} \<and> is_dir (files w) d \<and>
          \<not> is_dir (files w) (d @ [''calibration_list.txt''])"
  then have "present_calib (files w) d \<noteq> {}" and "is_dir (files w) d"
    and "\<not> is_dir (files w) (d @ [''calibration_list.txt''])"
    by (simp_all add: calib_entries_present)
  from generate_image_list_ok [OF this] show "fst (generate_image_list w d)"
    by auto
next
  assume run: "generate_image_list w d = (True, w')"
  define fl where "fl = sort (glob (files w) d ''calib_*.jpg'')"
  from list_file_content [OF run]
  have st: "stat (files w') (d @ [''calibration_list.txt'']) = Some (File (list_lines (cwd w) fl))"
    and same: "present_calib (files w') d = present_calib (files w) d"
    by (simp_all add: fl_def)
  have set_fl: "set fl = present_calib (files w) d"
    by (auto simp: fl_def set_glob present_calib_def)
  have dist: "distinct fl" by (simp add: fl_def distinct_glob)
  have "sorted fl" by (simp add: fl_def)
  moreover have "\<forall>p\<in>set fl. p \<noteq> [] \<and> butlast p = d"
    by (simp add: set_fl present_calib_def)
  ultimately have srt: "sorted (map last fl)" by (rule sorted_map_last)
  have len: "length fl = card (set fl)" using dist by (simp add: distinct_card)
  have ab: "is_absolute (cwd w) \<longrightarrow> (\<forall>p\<in>set fl. is_absolute (absolute (cwd w) p))"
    by (simp add: is_absolute_absolute)
  have lines_eq: "list_lines (cwd w) fl =
             concat (map (\<lambda>p. path_str (absolute (cwd w) p) @ [CHR 0x0A]) fl)"
    by (simp add: list_lines_def newline_def)
  from st lines_eq set_fl same dist srt len ab
  show "\<exists>fl. stat (files w') (d @ [''calibration_list.txt'']) =
               Some (File (concat (map (\<lambda>p. path_str (absolute (cwd w) p) @ [CHR 0x0A]) fl))) \<and>
            set fl = calib_entries (files w') d \<and> distinct fl \<and>
            sorted (map last fl) \<and> length fl = card (calib_entries (files w') d) \<and>
            (is_absolute (cwd w) \<longrightarrow> (\<forall>p\<in>set fl. is_absolute (absolute (cwd w) p)))"
    by (intro exI [of _ fl]) (simp add: calib_entries_present)
qed

theorem generate_image_list_lists_entries_witness:
  "generate_image_list stale_world [''src'', ''out''] = (True, listed_world) \<and>
   stat (files listed_world) [''src'', ''out'', ''calibration_list.txt''] =
     Some (File (''/work/src/out/calib_000000.jpg'' @ [CHR 0x0A] @
                 ''/work/src/out/calib_000001.jpg'' @ [CHR 0x0A] @
                 ''/work/src/out/calib_notes.jpg'' @ [CHR 0x0A])) \<and>
   (\<exists>fl. stat (files listed_world) [''src'', ''out'', ''calibration_list.txt''] =
               Some (File (concat (map (\<lambda>p. path_str (absolute (cwd stale_world) p) @ [CHR 0x0A]) fl))) \<and>
            set fl = calib_entries (files listed_world) [''src'', ''out''] \<and> distinct fl \<and>
            sorted (map last fl) \<and>
            length fl = card (calib_entries (files listed_world) [''src'', ''out'']) \<and>
            (\<forall>p\<in>set fl. is_absolute (absolute (cwd stale_world) p))) \<and>
   calib_entries (files mixed_case_world) [''out''] = {} \<and>
   generate_image_list mixed_case_world [''out''] = (False, emit Err_no_calib mixed_case_world) \<and>
   calib_entries (files stale_world) [''src'', ''out''] \<noteq> {} \<and>
   fst (generate_image_list stale_world [''src'', ''out''])"
proof -
  have a: "fst (generate_image_list stale_world [''src'', ''out''])"
    by code_simp
  then have b: "generate_image_list stale_world [''src'', ''out''] = (True, listed_world)"
    by (simp add: listed_world_def prod_eq_iff)
  have t: "stat (files listed_world) [''src'', ''out'', ''calibration_list.txt''] =
     Some (File (''/work/src/out/calib_000000.jpg'' @ [CHR 0x0A] @
                 ''/work/src/out/calib_000001.jpg'' @ [CHR 0x0A] @
                 ''/work/src/out/calib_notes.jpg'' @ [CHR 0x0A]))"
    by code_simp
  have ab: "is_absolute (cwd stale_world)" by code_simp
  have "glob (files mixed_case_world) [''out''] ''calib_*.jpg'' = []"
    by code_simp
  then have c: "calib_entries (files mixed_case_world) [''out''] = {}"
    using set_glob [of "files mixed_case_world" "[''out'']" "''calib_*.jpg''"]
    by (auto simp: calib_entries_present present_calib_def)
  have f: "is_file (files stale_world) [''src'', ''out'', ''calib_000000.jpg'']"
    and m: "fnmatch ''calib_*.jpg'' ''calib_000000.jpg''"
    and d: "is_dir (files stale_world) [''src'', ''out'']"
    and l: "\<not> is_dir (files stale_world) ([''src'', ''out''] @ [''calibration_list.txt''])"
    by code_simp+
  from f m have "[''src'', ''out'', ''calib_000000.jpg''] \<in> calib_entries (files stale_world) [''src'', ''out'']"
    by (simp add: calib_entries_def)
  then have ne: "calib_entries (files stale_world) [''src'', ''out''] \<noteq> {}" by blast
  from generate_image_list_lists_entries [of stale_world "[''src'', ''out'']" listed_world] b ab
       generate_image_list_lists_entries [of mixed_case_world "[''out'']"] c
       t ne a
  show ?thesis by simp
qed

text \<open>
  As the specification has it, the list holds one line for each calibration file and
  generation fails when there is no such file. In an output directory that holds a
  directory \<^verbatim>\<open>calib_x.jpg\<close> and a regular file \<^verbatim>\<open>calib_old.png\<close>, no regular
  file matches the script's pattern; generation succeeds all the same, the one line it
  writes is the directory's, and the file has none.
\<close>

theorem directory_listed_file_skipped:
  "is_dir (files dir_entry_world) [''out'', ''calib_x.jpg''] \<and>
   is_file (files dir_entry_world) [''out'', ''calib_old.png''] \<and>
   filter (is_file (files dir_entry_world)) (glob (files dir_entry_world) [''out''] ''calib_*.jpg'') = [] \<and>
   fst (generate_image_list dir_entry_world [''out'']) \<and>
   stat (files (snd (generate_image_list dir_entry_world [''out''])))
        [''out'', ''calibration_list.txt''] =
     Some (File (''/work/out/calib_x.jpg'' @ [CHR 0x0A]))"
  by code_simp

section \<open>The whole run\<close>







end
